theory Spec2Isabelle
  imports Complex_Main "HOL-Library.Sublist"
begin

section \<open>Data model of the menu simulator (App.tsx)\<close>

text \<open>
  A JavaScript \<open>number\<close> is modelled as an exact rational: comparisons, \<open>Math.max\<close>,
  \<open>Math.floor\<close> and integer arithmetic below \<open>2^53\<close> are exact on doubles, so the model
  agrees with the code there. The rounding of fractional sums, \<open>NaN\<close> and the infinities
  are outside the model. An optional field \<open>f?: number\<close> is a \<open>rat option\<close>, with \<open>None\<close>
  for \<open>undefined\<close>. A \<open>Record<string, number>\<close> is the map from its own keys to
  numbers; what an object inherits from its prototype is outside the model.
  A string is a list of bytes (UTF-8).
\<close>

datatype category = Shushoku | Okazu | SaladZensai | Side | Dessert


record Item =
  item_id :: string
  item_name :: string
  category :: category
  price :: rat
  kcal :: "rat option"
  protein :: "rat option"
  fat :: "rat option"
  carbs :: "rat option"
  salt :: "rat option"
  tags :: "string list option"

record Targets =
  budget :: "rat option"
  maxKcal :: "rat option"
  minProtein :: "rat option"
  maxSalt :: "rat option"

type_synonym Ledger = "string \<rightharpoonup> rat"

record SavedCombo =
  sc_id :: string
  sc_name :: string
  createdAt :: int
  qty :: Ledger
  targets :: "Targets option"

record Totals =
  t_count :: rat
  t_price :: rat
  t_kcal :: rat
  t_protein :: rat
  t_fat :: rat
  t_carbs :: rat
  t_salt :: rat

section \<open>Totals\<close>


text \<open>\<open>v || 0\<close> on a \<open>number | undefined\<close>: \<open>undefined\<close> and \<open>0\<close> are falsy.\<close>

definition or_zero :: "rat option \<Rightarrow> rat" where
  "or_zero v = (case v of None \<Rightarrow> 0 | Some x \<Rightarrow> if x = 0 then 0 else x)"








section \<open>Constraint evaluation\<close>

record PassFail =
  pf_budget :: bool
  pf_kcal :: bool
  pf_protein :: bool
  pf_salt :: bool

text \<open>
  The \<open>passFail\<close> memo of the component, as a function of the two values it depends on.
  \<open>targets.f === undefined ? true : ...\<close> is the case on the optional field.
\<close>

definition passFail :: "Targets \<Rightarrow> Totals \<Rightarrow> PassFail" where
  "passFail tg tt =
     \<lparr> pf_budget = (case budget tg of None \<Rightarrow> True | Some b \<Rightarrow> t_price tt \<le> b),
       pf_kcal = (case maxKcal tg of None \<Rightarrow> True | Some k \<Rightarrow> t_kcal tt \<le> k),
       pf_protein = (case minProtein tg of None \<Rightarrow> True | Some p \<Rightarrow> t_protein tt \<ge> p),
       pf_salt = (case maxSalt tg of None \<Rightarrow> True | Some s \<Rightarrow> t_salt tt \<le> s) \<rparr>"

section \<open>Strings\<close>

text \<open>
  \<open>String.prototype.trim\<close> and \<open>toLowerCase\<close> on the ASCII range: the white space
  characters are TAB, LF, VT, FF, CR and SPACE, and the letters \<open>A\<close> to \<open>Z\<close> are mapped
  to \<open>a\<close> to \<open>z\<close>. Bytes of multi-byte characters are left as they are.
\<close>

definition is_space :: "char \<Rightarrow> bool" where
  "is_space c = (of_char c \<in> {9, 10, 11, 12, 13, 32 :: nat})"

definition trim :: "string \<Rightarrow> string" where
  "trim s = rev (dropWhile is_space (rev (dropWhile is_space s)))"





text \<open>Decimal rendering of an integer, for the template string of the id.\<close>

fun digits :: "nat \<Rightarrow> string" where
  "digits n = (if n < 10 then [char_of (48 + n)] else digits (n div 10) @ [char_of (48 + n mod 10)])"

definition number_to_string :: "int \<Rightarrow> string" where
  "number_to_string n = (if n < 0 then ''-'' @ digits (nat (- n)) else digits (nat n))"

section \<open>Search\<close>





section \<open>Saved combinations\<close>

text \<open>
  The three readings of the clock that \<open>createSavedCombo\<close> makes, in the order of the
  object literal: \<open>Date.now()\<close> for the id, \<open>new Date().toLocaleString("ja-JP")\<close> for
  the default name, \<open>Date.now()\<close> for \<open>createdAt\<close>.
\<close>

record Clock =
  now_id :: int
  locale_now :: string
  now_created :: int

text \<open>
  \<open>Object.fromEntries(Object.entries(qty).filter(([, v]) => (v || 0) > 0)
       .map(([k, v]) => [k, Math.max(0, Math.floor(v || 0))]))\<close>, entry by entry.
\<close>

definition compactQty :: "Ledger \<Rightarrow> Ledger" where
  "compactQty q =
     (\<lambda>k. case q k of
            None \<Rightarrow> None
          | Some v \<Rightarrow>
              if or_zero (Some v) > 0 then Some (max 0 (of_int \<lfloor>or_zero (Some v)\<rfloor>)) else None)"

definition createSavedCombo :: "Clock \<Rightarrow> string \<Rightarrow> Ledger \<Rightarrow> Targets option \<Rightarrow> SavedCombo" where
  "createSavedCombo clk name q tg =
     \<lparr> sc_id = ''save_'' @ number_to_string (now_id clk),
       sc_name = (if name \<noteq> [] \<and> trim name \<noteq> [] then trim name else locale_now clk),
       createdAt = now_created clk,
       qty = compactQty q,
       targets = tg \<rparr>"

subsection \<open>Validation of a parsed candidate\<close>

text \<open>
  The values \<open>JSON.parse\<close> produces. An object is the list of its own properties,
  each name once; a property that is not there reads as \<open>undefined\<close>, which is \<open>None\<close>.
\<close>

datatype json =
    JNull
  | JBool bool
  | JNum rat
  | JStr string
  | JArr "json list"
  | JObj "(string \<times> json) list"

type_synonym jsval = "json option"

fun get_prop :: "jsval \<Rightarrow> string \<Rightarrow> jsval" where
  "get_prop (Some (JObj kvs)) k = map_of kvs k"
| "get_prop _ k = None"

fun truthy :: "jsval \<Rightarrow> bool" where
  "truthy None = False"
| "truthy (Some JNull) = False"
| "truthy (Some (JBool b)) = b"
| "truthy (Some (JNum n)) = (n \<noteq> 0)"
| "truthy (Some (JStr s)) = (s \<noteq> [])"
| "truthy (Some (JArr xs)) = True"
| "truthy (Some (JObj kvs)) = True"

fun typeof :: "jsval \<Rightarrow> string" where
  "typeof None = ''undefined''"
| "typeof (Some JNull) = ''object''"
| "typeof (Some (JBool b)) = ''boolean''"
| "typeof (Some (JNum n)) = ''number''"
| "typeof (Some (JStr s)) = ''string''"
| "typeof (Some (JArr xs)) = ''object''"
| "typeof (Some (JObj kvs)) = ''object''"

text \<open>\<open>a && b\<close> is \<open>a\<close> when \<open>a\<close> is falsy and \<open>b\<close> otherwise.\<close>

definition js_and :: "jsval \<Rightarrow> jsval \<Rightarrow> jsval" where
  "js_and a b = (if truthy a then b else a)"

definition js_bool :: "bool \<Rightarrow> jsval" where
  "js_bool b = Some (JBool b)"

definition validateSavedCombo :: "jsval \<Rightarrow> jsval" where
  "validateSavedCombo s =
     js_and (js_and (js_and (js_and (js_and (js_and s
       (js_bool (typeof s = ''object'')))
       (js_bool (typeof (get_prop s ''id'') = ''string'')))
       (js_bool (typeof (get_prop s ''name'') = ''string'')))
       (js_bool (typeof (get_prop s ''createdAt'') = ''number'')))
       (get_prop s ''qty''))
       (js_bool (typeof (get_prop s ''qty'') = ''object''))"

text \<open>What the specification asks of a candidate, field by field.\<close>

fun is_object :: "json \<Rightarrow> bool" where
  "is_object (JObj kvs) = True"
| "is_object (JArr xs) = True"
| "is_object _ = False"

fun is_string :: "json \<Rightarrow> bool" where
  "is_string (JStr s) = True"
| "is_string _ = False"

fun is_number :: "json \<Rightarrow> bool" where
  "is_number (JNum n) = True"
| "is_number _ = False"

definition well_shaped :: "jsval \<Rightarrow> bool" where
  "well_shaped s =
     (case s of
        Some (JObj kvs) \<Rightarrow>
          (case (map_of kvs ''id'', map_of kvs ''name'', map_of kvs ''createdAt'', map_of kvs ''qty'') of
             (Some i, Some n, Some c, Some q) \<Rightarrow> is_string i \<and> is_string n \<and> is_number c \<and> is_object q
           | _ \<Rightarrow> False)
      | _ \<Rightarrow> False)"

subsection \<open>Retention of the saved list\<close>








section \<open>Greedy selection by protein per yen\<close>

text \<open>
  The ratio \<open>(protein || 0) / price\<close> divides by the price, and a price of 0 gives an
  infinity or \<open>NaN\<close> in JavaScript. The ratios and the comparator's result are therefore
  numbers extended by these three values.
\<close>

datatype jsnum = Fin rat | PosInf | NegInf | NaN

definition js_div :: "rat \<Rightarrow> rat \<Rightarrow> jsnum" where
  "js_div a b =
     (if b \<noteq> 0 then Fin (a / b)
      else if 0 < a then PosInf
      else if a < 0 then NegInf
      else NaN)"

fun js_sub :: "jsnum \<Rightarrow> jsnum \<Rightarrow> jsnum" where
  "js_sub (Fin a) (Fin b) = Fin (a - b)"
| "js_sub NaN y = NaN"
| "js_sub x NaN = NaN"
| "js_sub PosInf PosInf = NaN"
| "js_sub NegInf NegInf = NaN"
| "js_sub PosInf y = PosInf"
| "js_sub NegInf y = NegInf"
| "js_sub (Fin a) PosInf = NegInf"
| "js_sub (Fin a) NegInf = PosInf"

definition ratio :: "Item \<Rightarrow> jsnum" where
  "ratio it = js_div (or_zero (protein it)) (price it)"

text \<open>The comparator \<open>(a, b) => rb - ra\<close>: descending by ratio.\<close>

definition ratio_cmp :: "Item \<Rightarrow> Item \<Rightarrow> jsnum" where
  "ratio_cmp a b = js_sub (ratio b) (ratio a)"

text \<open>
  \<open>Array.prototype.sort\<close> is stable and puts \<open>a\<close> after \<open>b\<close> only when the comparator's
  result is greater than 0; 0 and \<open>NaN\<close> leave the two in their order. The sort is an
  insertion from the right, which gives the one stable result for a consistent
  comparator.
\<close>

fun greater_than_zero :: "jsnum \<Rightarrow> bool" where
  "greater_than_zero (Fin v) = (0 < v)"
| "greater_than_zero PosInf = True"
| "greater_than_zero NegInf = False"
| "greater_than_zero NaN = False"

fun insert_sorted :: "('a \<Rightarrow> 'a \<Rightarrow> jsnum) \<Rightarrow> 'a \<Rightarrow> 'a list \<Rightarrow> 'a list" where
  "insert_sorted cmp x [] = [x]"
| "insert_sorted cmp x (y # ys) =
     (if greater_than_zero (cmp x y) then y # insert_sorted cmp x ys else x # y # ys)"

definition js_sort :: "('a \<Rightarrow> 'a \<Rightarrow> jsnum) \<Rightarrow> 'a list \<Rightarrow> 'a list" where
  "js_sort cmp xs = foldr (insert_sorted cmp) xs []"

text \<open>\<open>Math.min(...xs)\<close>, which is \<open>Infinity\<close> for no argument.\<close>

fun math_min :: "rat list \<Rightarrow> jsnum" where
  "math_min [] = PosInf"
| "math_min (x # xs) = Fin (fold min xs x)"

text \<open>\<open>cost + m > budget\<close> for the result \<open>m\<close> of \<open>Math.min\<close>.\<close>

fun exceeds :: "rat \<Rightarrow> jsnum \<Rightarrow> rat \<Rightarrow> bool" where
  "exceeds c (Fin m) b = (c + m > b)"
| "exceeds c PosInf b = True"
| "exceeds c NegInf b = False"
| "exceeds c NaN b = False"

text \<open>The two variables of the loop: the ledger \<open>next\<close> under construction and \<open>cost\<close>.\<close>

record Acc =
  acc_next :: Ledger
  acc_cost :: rat

text \<open>\<open>if (cost + it.price <= budget) { next[it.id] = (next[it.id] || 0) + 1; cost += it.price; }\<close>\<close>

definition add_if_affordable :: "rat \<Rightarrow> Item \<Rightarrow> Acc \<Rightarrow> Acc" where
  "add_if_affordable b it acc =
     (if acc_cost acc + price it \<le> b
      then \<lparr> acc_next = (acc_next acc)(item_id it \<mapsto> or_zero (acc_next acc (item_id it)) + 1),
             acc_cost = acc_cost acc + price it \<rparr>
      else acc)"

text \<open>
  The \<open>for\<close> loop over the sorted items, from the items still to visit. The flag of the
  result says whether \<open>break outer\<close> was taken.
\<close>

fun scan :: "Item list \<Rightarrow> rat \<Rightarrow> Item list \<Rightarrow> Acc \<Rightarrow> bool \<times> Acc" where
  "scan sorted_items b [] acc = (False, acc)"
| "scan sorted_items b (it # rest) acc =
     (let acc' = add_if_affordable b it acc
      in if sorted_items = [] \<or> exceeds (acc_cost acc') (math_min (map price sorted_items)) b
         then (True, acc')
         else scan sorted_items b rest acc')"

text \<open>
  The \<open>while (true)\<close> loop. It may run forever, so its result is an option and \<open>None\<close>
  stands for a loop that does not return.
\<close>

partial_function (option) greedy_loop :: "Item list \<Rightarrow> rat \<Rightarrow> Acc \<Rightarrow> Acc option" where
  "greedy_loop sorted_items b acc =
     (let r = scan sorted_items b sorted_items acc
      in if fst r then Some (snd r)
         else if list_all (\<lambda>it. acc_cost (snd r) + price it > b) sorted_items then Some (snd r)
         else greedy_loop sorted_items b (snd r))"

declare greedy_loop.simps [code]

text \<open>
  \<open>greedyOptimizeProtein\<close> as a function of the items and targets it reads; the result
  is the ledger it passes to \<open>setQty\<close>.
\<close>

definition active_budget :: "Targets \<Rightarrow> rat" where
  "active_budget tg = (case budget tg of None \<Rightarrow> 1000 | Some b \<Rightarrow> b)"

definition greedyOptimizeProtein :: "Item list \<Rightarrow> Targets \<Rightarrow> Ledger option" where
  "greedyOptimizeProtein items tg =
     (let b = active_budget tg;
          sorted_items = js_sort ratio_cmp items
      in map_option acc_next (greedy_loop sorted_items b \<lparr> acc_next = Map.empty, acc_cost = 0 \<rparr>))"

text \<open>Catalogs and targets for concrete evaluations.\<close>

definition plain_item :: "string \<Rightarrow> rat \<Rightarrow> rat option \<Rightarrow> Item" where
  "plain_item i p pr =
     \<lparr> item_id = i, item_name = i, category = Side, price = p,
       kcal = None, protein = pr, fat = None, carbs = None, salt = None, tags = None \<rparr>"

definition only_budget :: "rat \<Rightarrow> Targets" where
  "only_budget b = \<lparr> budget = Some b, maxKcal = None, minProtein = None, maxSalt = None \<rparr>"



section \<open>Properties of the totals\<close>



lemma or_zero_plain: "or_zero v = (case v of None \<Rightarrow> 0 | Some x \<Rightarrow> x)"
  by (simp add: or_zero_def split: option.splits)











section \<open>Properties of the constraint evaluation and of saved combinations\<close>




text \<open>
  C4: each dimension passes when its target is unset; otherwise the budget, the
  calories and the salt pass exactly when the total is at most the target, and the
  protein passes exactly when the total is at least the target. The threshold itself
  passes: a price of 1000 passes a budget of 1000, 1001 fails, and a protein total of
  19.999 fails a minimum of 20.
\<close>

theorem passFail_rules:
  "(budget tg = None \<longrightarrow> pf_budget (passFail tg tt))
   \<and> (\<forall>b. budget tg = Some b \<longrightarrow> pf_budget (passFail tg tt) = (t_price tt \<le> b))
   \<and> (maxKcal tg = None \<longrightarrow> pf_kcal (passFail tg tt))
   \<and> (\<forall>k. maxKcal tg = Some k \<longrightarrow> pf_kcal (passFail tg tt) = (t_kcal tt \<le> k))
   \<and> (minProtein tg = None \<longrightarrow> pf_protein (passFail tg tt))
   \<and> (\<forall>p. minProtein tg = Some p \<longrightarrow> pf_protein (passFail tg tt) = (t_protein tt \<ge> p))
   \<and> (maxSalt tg = None \<longrightarrow> pf_salt (passFail tg tt))
   \<and> (\<forall>s. maxSalt tg = Some s \<longrightarrow> pf_salt (passFail tg tt) = (t_salt tt \<le> s))
   \<and> pf_budget (passFail \<lparr>budget = Some 1000, maxKcal = None, minProtein = None, maxSalt = None\<rparr>
        (tt\<lparr>t_price := 1000\<rparr>))
   \<and> \<not> pf_budget (passFail \<lparr>budget = Some 1000, maxKcal = None, minProtein = None, maxSalt = None\<rparr>
        (tt\<lparr>t_price := 1001\<rparr>))
   \<and> \<not> pf_protein (passFail \<lparr>budget = None, maxKcal = None, minProtein = Some 20, maxSalt = None\<rparr>
        (tt\<lparr>t_protein := 19999 / 1000\<rparr>))"
  by (simp add: passFail_def)

theorem passFail_rules_witness:
  "budget \<lparr>budget = Some 1000, maxKcal = None, minProtein = Some 20, maxSalt = Some 6\<rparr> = Some 1000
   \<and> maxKcal \<lparr>budget = Some 1000, maxKcal = None, minProtein = Some 20, maxSalt = Some 6\<rparr> = None
   \<and> pf_budget (passFail \<lparr>budget = Some 1000, maxKcal = None, minProtein = Some 20, maxSalt = Some 6\<rparr>
        \<lparr>t_count = 3, t_price = 400, t_kcal = 950, t_protein = 25, t_fat = 0, t_carbs = 0, t_salt = 7\<rparr>)
   \<and> pf_kcal (passFail \<lparr>budget = Some 1000, maxKcal = None, minProtein = Some 20, maxSalt = Some 6\<rparr>
        \<lparr>t_count = 3, t_price = 400, t_kcal = 950, t_protein = 25, t_fat = 0, t_carbs = 0, t_salt = 7\<rparr>)
   \<and> pf_protein (passFail \<lparr>budget = Some 1000, maxKcal = None, minProtein = Some 20, maxSalt = Some 6\<rparr>
        \<lparr>t_count = 3, t_price = 400, t_kcal = 950, t_protein = 25, t_fat = 0, t_carbs = 0, t_salt = 7\<rparr>)
   \<and> \<not> pf_salt (passFail \<lparr>budget = Some 1000, maxKcal = None, minProtein = Some 20, maxSalt = Some 6\<rparr>
        \<lparr>t_count = 3, t_price = 400, t_kcal = 950, t_protein = 25, t_fat = 0, t_carbs = 0, t_salt = 7\<rparr>)"
  using passFail_rules [of "\<lparr>budget = Some 1000, maxKcal = None, minProtein = Some 20, maxSalt = Some 6\<rparr>"
        "\<lparr>t_count = 3, t_price = 400, t_kcal = 950, t_protein = 25, t_fat = 0, t_carbs = 0, t_salt = 7\<rparr>"]
  by simp



subsection \<open>Compaction of the saved ledger\<close>

text \<open>
  C1: the saved ledger is claimed to hold no zero entry. The filter runs on the value as
  it comes and the floor runs after it, so a quantity strictly between 0 and 1 passes
  the filter and is saved as 0: the ledger \<open>{a: 0.5}\<close> is saved as \<open>{a: 0}\<close>.
\<close>

theorem createSavedCombo_keeps_floored_zero:
  "qty (createSavedCombo clk name [''a'' \<mapsto> 1 / 2] tg) ''a'' = Some 0"
  by (simp add: createSavedCombo_def compactQty_def or_zero_def)

lemma createSavedCombo_example:
  "qty (createSavedCombo clk name [''a'' \<mapsto> 2, ''b'' \<mapsto> 0, ''c'' \<mapsto> - 5] tg) = [''a'' \<mapsto> 2]"
  by (rule ext) (simp add: createSavedCombo_def compactQty_def or_zero_def)

lemma compactQty_entries:
  assumes "compactQty q k = Some w"
  shows "\<exists>v. q k = Some v \<and> 0 < v \<and> w = of_int \<lfloor>v\<rfloor> \<and> 0 \<le> w"
proof (cases "q k")
  case None
  with assms show ?thesis by (simp add: compactQty_def)
next
  case (Some v)
  with assms have pos: "0 < v" and w: "w = max 0 (of_int \<lfloor>v\<rfloor>)"
    by (auto simp: compactQty_def or_zero_plain split: if_splits)
  from pos have "0 \<le> \<lfloor>v\<rfloor>" by simp
  then have "(0::rat) \<le> of_int \<lfloor>v\<rfloor>" by simp
  with w have "w = of_int \<lfloor>v\<rfloor>" "0 \<le> w" by (simp_all add: max_def)
  with Some pos show ?thesis by simp
qed

lemma compactQty_integer_ledger:
  assumes "compactQty q k = Some w" and "\<forall>v\<in>ran q. v \<in> \<int>"
  shows "0 < w \<and> w \<in> \<int> \<and> q k = Some w"
proof -
  from compactQty_entries [OF assms(1)] obtain v
    where v: "q k = Some v" "0 < v" "w = of_int \<lfloor>v\<rfloor>" by blast
  then have "v \<in> \<int>" using assms(2) by (auto simp: ran_def)
  then obtain n where n: "v = of_int n" by (rule Ints_cases)
  then have "of_int \<lfloor>v\<rfloor> = v" by simp
  with v n show ?thesis by simp
qed

subsection \<open>Validation\<close>

lemma typeof_string: "(typeof v = ''string'') = (case v of Some j \<Rightarrow> is_string j | None \<Rightarrow> False)"
  by (cases v; cases "the v") simp_all

lemma typeof_number: "(typeof v = ''number'') = (case v of Some j \<Rightarrow> is_number j | None \<Rightarrow> False)"
  by (cases v; cases "the v") simp_all

lemma typeof_object_truthy:
  "(truthy v \<and> typeof v = ''object'') = (case v of Some j \<Rightarrow> is_object j | None \<Rightarrow> False)"
  by (cases v; cases "the v") simp_all

lemma truthy_js_and: "truthy (js_and a b) = (truthy a \<and> truthy b)"
  by (simp add: js_and_def)

lemma truthy_js_bool: "truthy (js_bool b) = b"
  by (simp add: js_bool_def)

lemma truthy_validate:
  "truthy (validateSavedCombo s) =
     (truthy s \<and> typeof s = ''object'' \<and> typeof (get_prop s ''id'') = ''string''
      \<and> typeof (get_prop s ''name'') = ''string'' \<and> typeof (get_prop s ''createdAt'') = ''number''
      \<and> truthy (get_prop s ''qty'') \<and> typeof (get_prop s ''qty'') = ''object'')"
  unfolding validateSavedCombo_def truthy_js_and truthy_js_bool by (simp only: conj_assoc)

lemma validate_true_iff_truthy:
  "(validateSavedCombo s = Some (JBool True)) = truthy (validateSavedCombo s)"
proof
  assume "validateSavedCombo s = Some (JBool True)"
  then show "truthy (validateSavedCombo s)" by simp
next
  assume t: "truthy (validateSavedCombo s)"
  then have "typeof (get_prop s ''qty'') = ''object''"
    unfolding truthy_validate by simp
  moreover from t have "validateSavedCombo s = js_bool (typeof (get_prop s ''qty'') = ''object'')"
    unfolding validateSavedCombo_def truthy_js_and by (simp add: js_and_def)
  ultimately show "validateSavedCombo s = Some (JBool True)"
    by (simp add: js_bool_def)
qed

lemma truthy_validate_shape: "truthy (validateSavedCombo s) = well_shaped s"
proof (cases s)
  case None
  then show ?thesis by (simp add: truthy_validate well_shaped_def)
next
  case (Some j)
  show ?thesis
  proof (cases j)
    case (JObj kvs)
    have "truthy (validateSavedCombo s) =
        ((case map_of kvs ''id'' of Some j \<Rightarrow> is_string j | None \<Rightarrow> False)
         \<and> (case map_of kvs ''name'' of Some j \<Rightarrow> is_string j | None \<Rightarrow> False)
         \<and> (case map_of kvs ''createdAt'' of Some j \<Rightarrow> is_number j | None \<Rightarrow> False)
         \<and> (case map_of kvs ''qty'' of Some j \<Rightarrow> is_object j | None \<Rightarrow> False))"
      unfolding truthy_validate
      using typeof_object_truthy [of "map_of kvs ''qty''"]
      by (simp add: Some JObj typeof_string typeof_number)
    then show ?thesis
      by (simp add: well_shaped_def Some JObj split: option.splits)
  qed (simp_all add: Some truthy_validate well_shaped_def)
qed

text \<open>
  C9: the validation returns \<open>true\<close> exactly for an object with a string \<open>id\<close>, a string
  \<open>name\<close>, a numeric \<open>createdAt\<close> and a \<open>qty\<close> that is an object (or an array, whose
  \<open>typeof\<close> is \<open>"object"\<close> too); every other value gets a falsy result. The content of
  \<open>qty\<close> and the \<open>targets\<close> property do not change the result.
\<close>

theorem validateSavedCombo_shape:
  "(validateSavedCombo s = Some (JBool True)) = well_shaped s
   \<and> truthy (validateSavedCombo s) = well_shaped s
   \<and> validateSavedCombo (Some (JObj ((''qty'', JObj vs) # kvs)))
       = validateSavedCombo (Some (JObj ((''qty'', JObj vs') # kvs)))
   \<and> validateSavedCombo (Some (JObj ((''targets'', t) # kvs))) = validateSavedCombo (Some (JObj kvs))"
proof -
  have "validateSavedCombo (Some (JObj ((''qty'', JObj vs) # kvs)))
       = validateSavedCombo (Some (JObj ((''qty'', JObj vs') # kvs)))"
    by (simp add: validateSavedCombo_def js_and_def js_bool_def)
  moreover have "validateSavedCombo (Some (JObj ((''targets'', t) # kvs))) = validateSavedCombo (Some (JObj kvs))"
    by (simp add: validateSavedCombo_def js_and_def js_bool_def)
  ultimately show ?thesis
    by (simp add: validate_true_iff_truthy truthy_validate_shape)
qed

theorem validateSavedCombo_shape_witness:
  "well_shaped (Some (JObj [(''id'', JStr ''save_1''), (''name'', JStr ''lunch''),
       (''createdAt'', JNum 1), (''qty'', JObj [(''a'', JStr ''two'')]), (''targets'', JNum 3)]))
   \<and> validateSavedCombo (Some (JObj [(''id'', JStr ''save_1''), (''name'', JStr ''lunch''),
       (''createdAt'', JNum 1), (''qty'', JObj [(''a'', JStr ''two'')]), (''targets'', JNum 3)]))
       = Some (JBool True)
   \<and> \<not> well_shaped (Some (JObj [(''id'', JNum 1), (''name'', JStr ''lunch''),
       (''createdAt'', JNum 1), (''qty'', JObj [])]))
   \<and> validateSavedCombo (Some (JObj [(''id'', JNum 1), (''name'', JStr ''lunch''),
       (''createdAt'', JNum 1), (''qty'', JObj [])])) \<noteq> Some (JBool True)"
  using validateSavedCombo_shape [of "Some (JObj [(''id'', JStr ''save_1''), (''name'', JStr ''lunch''),
       (''createdAt'', JNum 1), (''qty'', JObj [(''a'', JStr ''two'')]), (''targets'', JNum 3)])"]
    validateSavedCombo_shape [of "Some (JObj [(''id'', JNum 1), (''name'', JStr ''lunch''),
       (''createdAt'', JNum 1), (''qty'', JObj [])])"]
  by (simp add: well_shaped_def)

subsection \<open>Retention\<close>








section \<open>Properties of the search\<close>





section \<open>Properties of the greedy selection\<close>


















lemma greedy_loop_free_item_aux:
  assumes "greedy_loop srt b acc = Some r"
  shows "\<not> (srt = [plain_item ''water'' 0 None] \<and> b = 1000 \<and> acc_cost acc \<le> 1000)"
proof (rule greedy_loop.raw_induct
    [where P = "\<lambda>srt b acc r. \<not> (srt = [plain_item ''water'' 0 None] \<and> b = 1000 \<and> acc_cost acc \<le> 1000)",
      OF _ assms])
  fix loop :: "Item list \<Rightarrow> rat \<Rightarrow> Acc \<Rightarrow> Acc option" and srt b acc r
  assume IH: "\<And>srt b acc r. loop srt b acc = Some r \<Longrightarrow>
      \<not> (srt = [plain_item ''water'' 0 None] \<and> b = 1000 \<and> acc_cost acc \<le> 1000)"
    and body: "(let s = scan srt b srt acc
                in if fst s then Some (snd s)
                   else if list_all (\<lambda>it. acc_cost (snd s) + price it > b) srt then Some (snd s)
                   else loop srt b (snd s)) = Some r"
  show "\<not> (srt = [plain_item ''water'' 0 None] \<and> b = 1000 \<and> acc_cost acc \<le> 1000)"
  proof
    assume a: "srt = [plain_item ''water'' 0 None] \<and> b = 1000 \<and> acc_cost acc \<le> 1000"
    let ?acc = "add_if_affordable 1000 (plain_item ''water'' 0 None) acc"
    have c: "acc_cost ?acc = acc_cost acc"
      using a by (simp add: add_if_affordable_def plain_item_def)
    have s: "scan srt b srt acc = (False, ?acc)"
      using a c by (simp add: Let_def plain_item_def)
    from body have "loop srt b ?acc = Some r"
      using a c by (simp add: s plain_item_def)
    from IH [OF this] a c show False by simp
  qed
qed

text \<open>
  C2: the procedure is claimed to terminate for every catalog and budget. An item of
  price 0 is always affordable, the cost never grows, and neither exit test of the loop
  ever holds: with the one item \<open>water\<close> of price 0 and a budget of 1000 the loop does not
  return.
\<close>

theorem greedy_runs_forever_on_free_item:
  "greedyOptimizeProtein [plain_item ''water'' 0 None] (only_budget 1000) = None"
proof -
  have "greedy_loop [plain_item ''water'' 0 None] 1000 \<lparr>acc_next = Map.empty, acc_cost = 0\<rparr> = None"
  proof (cases "greedy_loop [plain_item ''water'' 0 None] 1000 \<lparr>acc_next = Map.empty, acc_cost = 0\<rparr>")
    case None
    then show ?thesis .
  next
    case (Some r)
    from greedy_loop_free_item_aux [OF this] show ?thesis by simp
  qed
  then show ?thesis
    by (simp add: greedyOptimizeProtein_def active_budget_def only_budget_def js_sort_def)
qed










end
